theory Spec2Isabelle
  imports Complex_Main
begin

section \<open>The ChatGPT adapter of evadb/udfs/chatgpt.py\<close>

text \<open>
  The file defines one class, \<open>ChatGPT\<close>, with two methods: \<open>setup\<close> stores the
  model name and the temperature on the instance, \<open>forward\<close> turns every row of a
  pandas frame into one chat-completion request and collects the answers in a frame with
  the single column \<open>response\<close>.

  The embedding is a state-passing one. The instance is a record; everything outside the
  instance that \<open>forward\<close> reads or changes (the configuration store, the process
  environment, the \<open>openai\<close> module with its \<open>api_key\<close> and its remote endpoint,
  the clock that \<open>time.sleep\<close> advances) is a record \<open>world\<close>. A raised exception
  is the \<open>Inl\<close> side of a sum. Every effect is appended to a trace, so that "how many
  remote calls", "which request" and "before any remote call" are statements about a list.
  Python runs with assertions enabled (the default; \<open>python -O\<close> strips them). The
  decorators \<open>setup(...)\<close> and \<open>forward(...)\<close> of \<open>evadb.udfs.decorators\<close> are
  defined elsewhere; they are taken to attach the declared metadata and to call the method
  as it is written here.
\<close>

subsection \<open>Exceptions\<close>

text \<open>
  Each constructor carries the text that \<open>str(e)\<close> gives (for the attribute error of
  an attribute that was never assigned, shortened to its name). \<open>ClientError\<close> stands for any
  other subclass of \<open>Exception\<close> the client library raises (rate limit, timeout,
  authentication, ...). \<open>NonException\<close> stands for the exceptions that derive from
  \<open>BaseException\<close> only (\<open>KeyboardInterrupt\<close>, \<open>SystemExit\<close>): the clause
  \<open>except Exception\<close> does not catch them.
\<close>

datatype exn =
    AssertionError string
  | IndexError string
  | AttributeError string
  | ClientError string
  | NonException string

fun str :: "exn \<Rightarrow> string" where
  "str (AssertionError m) = m"
| "str (IndexError m) = m"
| "str (AttributeError m) = m"
| "str (ClientError m) = m"
| "str (NonException m) = m"

fun is_Exception :: "exn \<Rightarrow> bool" where
  "is_Exception (NonException m) = False"
| "is_Exception e = True"

subsection \<open>Requests, responses, effects\<close>

text \<open>
  A message is the dict \<open>{"role": ..., "content": ...}\<close>; the keyword arguments of the
  remote call are the dict \<open>params\<close> with the keys \<open>model\<close>, \<open>temperature\<close>,
  \<open>messages\<close>. The response of the client is read as
  \<open>response.choices[0].message.content\<close>.
\<close>

record message =
  role :: string
  content :: string

record params =
  model :: string
  temperature :: real
  messages :: "message list"

record choice =
  message :: message

record response =
  choices :: "choice list"

datatype event =
    ConfigRead string string
  | EnvRead string
  | RemoteCall params
  | Sleep nat

text \<open>
  \<open>try_to_import_openai\<close> and \<open>ConfigurationManager().get_value\<close> are functions of the
  repository that this file only calls; they are taken as parameters: the first as the
  exception it raises, if any, the second as the string it returns for a section and a
  key. \<open>create\<close> is \<open>openai.ChatCompletion.create\<close>: its outcome may depend on the
  number of calls made before (\<open>calls\<close>) and on the request.
\<close>

record world =
  try_to_import_openai :: "exn option"
  get_value :: "string \<Rightarrow> string \<Rightarrow> string"
  environ :: "string \<rightharpoonup> string"
  api_key :: string
  create :: "nat \<Rightarrow> params \<Rightarrow> exn + response"
  calls :: nat
  trace :: "event list"

definition emit :: "event \<Rightarrow> world \<Rightarrow> world" where
  "emit ev w = w\<lparr>trace := trace w @ [ev]\<rparr>"

text \<open>The events a run from \<open>w\<close> to \<open>w'\<close> has added, and the requests among events.\<close>

definition emitted :: "world \<Rightarrow> world \<Rightarrow> event list" where
  "emitted w w' = drop (length (trace w)) (trace w')"

fun requests :: "event list \<Rightarrow> params list" where
  "requests [] = []"
| "requests (RemoteCall p # evs) = p # requests evs"
| "requests (ev # evs) = requests evs"

fun sleeps :: "event list \<Rightarrow> nat list" where
  "sleeps [] = []"
| "sleeps (Sleep d # evs) = d # sleeps evs"
| "sleeps (ev # evs) = sleeps evs"

fun config_reads :: "event list \<Rightarrow> (string \<times> string) list" where
  "config_reads [] = []"
| "config_reads (ConfigRead s k # evs) = (s, k) # config_reads evs"
| "config_reads (ev # evs) = config_reads evs"

subsection \<open>The instance and its configuration\<close>

definition VALID_CHAT_COMPLETION_MODEL :: "string list" where
  "VALID_CHAT_COMPLETION_MODEL =
     [''gpt-4'', ''gpt-4-0314'', ''gpt-4-32k'', ''gpt-4-32k-0314'',
      ''gpt-3.5-turbo'', ''gpt-3.5-turbo-0301'']"

text \<open>
  \<open>self.model\<close> and \<open>self.temperature\<close>; \<open>None\<close> is an attribute that was never
  assigned.
\<close>

record ChatGPT =
  self_model :: "string option"
  self_temperature :: "real option"

text \<open>
  The method \<open>setup(self, model="gpt-3.5-turbo", temperature=0)\<close> (the name is taken
  in Isabelle, hence \<open>ChatGPT_setup\<close>): an argument that the caller
  leaves out is \<open>None\<close> here and takes its default. The assertion comes first, the two
  assignments after it. The result is the raised exception or \<open>()\<close>, and the instance
  as the call leaves it.
\<close>

definition ChatGPT_setup :: "ChatGPT \<Rightarrow> string option \<Rightarrow> real option \<Rightarrow> (exn + unit) \<times> ChatGPT" where
  "ChatGPT_setup self model_arg temperature_arg =
     (let model = (case model_arg of None \<Rightarrow> ''gpt-3.5-turbo'' | Some m \<Rightarrow> m);
          temperature = (case temperature_arg of None \<Rightarrow> 0 | Some t \<Rightarrow> t)
      in if model \<in> set VALID_CHAT_COMPLETION_MODEL
         then (Inr (), self\<lparr>self_model := Some model, self_temperature := Some temperature\<rparr>)
         else (Inl (AssertionError (''Unsupported ChatGPT '' @ model)), self))"

subsection \<open>The remote call and the retry decorator\<close>

definition ChatCompletion_create :: "params \<Rightarrow> world \<Rightarrow> (exn + response) \<times> world" where
  "ChatCompletion_create kwargs w =
     (create w (calls w) kwargs, emit (RemoteCall kwargs) (w\<lparr>calls := Suc (calls w)\<rparr>))"

text \<open>\<open>response.choices[0].message.content\<close>; indexing an empty list raises.\<close>

definition first_choice_content :: "response \<Rightarrow> exn + string" where
  "first_choice_content r =
     (case choices r of
        [] \<Rightarrow> Inl (IndexError ''list index out of range'')
      | c # _ \<Rightarrow> Inr (content (message c)))"

text \<open>
  The \<open>try\<close> block of \<open>completion_with_backoff\<close> as a function of the outcome of the
  remote call: the answer is the content of the first choice; an \<open>Exception\<close> raised by
  the call or by the indexing becomes the answer \<open>f"{e}"\<close>; anything else propagates.
\<close>

definition answer_of :: "exn + response \<Rightarrow> exn + string" where
  "answer_of outcome =
     (case (case outcome of Inl e \<Rightarrow> Inl e | Inr r \<Rightarrow> first_choice_content r) of
        Inr answer \<Rightarrow> Inr answer
      | Inl e \<Rightarrow> if is_Exception e then Inr (str e) else Inl e)"

text \<open>The body of \<open>completion_with_backoff\<close>, before the decorator is applied.\<close>

definition completion_body :: "params \<Rightarrow> world \<Rightarrow> (exn + string) \<times> world" where
  "completion_body kwargs w =
     (case ChatCompletion_create kwargs w of (outcome, w') \<Rightarrow> (answer_of outcome, w'))"

text \<open>
  \<open>retry(tries, delay)\<close> of the package \<open>retry\<close>, with its defaults
  \<open>exceptions=Exception\<close>, \<open>backoff=1\<close>, \<open>jitter=0\<close>, \<open>max_delay=None\<close>:
  \<^verbatim>\<open>
    _tries, _delay = tries, delay
    while _tries:
        try:
            return f()
        except exceptions as e:
            _tries -= 1
            if not _tries:
                raise
            time.sleep(_delay)
            _delay *= backoff
  \<close>
  The equation below is one turn of the loop from a count \<open>tries \<ge> 1\<close> (the decorator
  is applied with 6): a result is returned at once, an \<open>Exception\<close> is raised again
  when it was the last try and otherwise is followed by a sleep of \<open>delay\<close> and the
  next turn; an exception that is not an \<open>Exception\<close> passes through.
\<close>

definition sleep :: "nat \<Rightarrow> world \<Rightarrow> world" where
  "sleep d w = emit (Sleep d) w"

fun retry :: "nat \<Rightarrow> nat \<Rightarrow> (world \<Rightarrow> (exn + 'a) \<times> world) \<Rightarrow> world \<Rightarrow> (exn + 'a) \<times> world" where
  "retry tries delay f w =
     (case f w of
        (Inr a, w') \<Rightarrow> (Inr a, w')
      | (Inl e, w') \<Rightarrow>
          if \<not> is_Exception e then (Inl e, w')
          else if tries \<le> 1 then (Inl e, w')
          else retry (tries - 1) delay f (sleep delay w'))"

declare retry.simps [simp del]

definition completion_with_backoff :: "params \<Rightarrow> world \<Rightarrow> (exn + string) \<times> world" where
  "completion_with_backoff kwargs w = retry 6 20 (completion_body kwargs) w"

subsection \<open>The input frame\<close>

text \<open>
  A pandas frame as its columns in order, each a label and its values; all cells are
  strings (the declared column types are \<open>NdArrayType.STR\<close>). pandas keeps the columns
  of a frame equally long: \<open>rectangular\<close>. A frame without columns is the empty list.
\<close>

type_synonym dataframe = "(string \<times> string list) list"

definition rectangular :: "dataframe \<Rightarrow> bool" where
  "rectangular df = (\<forall>c \<in> set df. length (snd c) = length (snd (hd df)))"

definition len :: "dataframe \<Rightarrow> nat" where
  "len df = (case df of [] \<Rightarrow> 0 | c # _ \<Rightarrow> length (snd c))"

text \<open>\<open>text_df.iloc[:, j]\<close> and \<open>text_df.iloc[i, j]\<close>, with their bounds checks.\<close>

definition iloc_col :: "dataframe \<Rightarrow> nat \<Rightarrow> exn + string list" where
  "iloc_col df j =
     (if j < length df then Inr (snd (df ! j))
      else Inl (IndexError ''single positional indexer is out-of-bounds''))"

definition iloc :: "dataframe \<Rightarrow> nat \<Rightarrow> nat \<Rightarrow> exn + string" where
  "iloc df i j =
     (if j < length df \<and> i < length (snd (df ! j)) then Inr (snd (df ! j) ! i)
      else Inl (IndexError ''single positional indexer is out-of-bounds''))"

text \<open>
  Lines 99 to 107: \<open>queries\<close> and \<open>content\<close> are both the column labelled like the
  first one (\<open>text_df.columns[0]\<close> raises on a frame without columns); with more than one
  column they are the columns at positions 0 and 1 (for a single column the label picks
  that column, and where labels repeat there is more than one column, so the selection by
  label is overwritten); with more than two columns \<open>prompt\<close> is the cell at row 0 of the
  column at position 2, which raises on a frame without rows.
\<close>

definition select_columns :: "dataframe \<Rightarrow> exn + (string list \<times> string list \<times> string option)" where
  "select_columns text_df =
     (case text_df of
        [] \<Rightarrow> Inl (IndexError ''index 0 is out of bounds for axis 0 with size 0'')
      | c0 # _ \<Rightarrow>
          (case (if length text_df > 1
                 then (case iloc_col text_df 0 of
                         Inl e \<Rightarrow> Inl e
                       | Inr queries \<Rightarrow>
                           (case iloc_col text_df 1 of
                              Inl e \<Rightarrow> Inl e
                            | Inr content' \<Rightarrow> Inr (queries, content')))
                 else Inr (snd c0, snd c0)) of
             Inl e \<Rightarrow> Inl e
           | Inr (queries, content') \<Rightarrow>
               if length text_df > 2
               then (case iloc text_df 0 2 of
                       Inl e \<Rightarrow> Inl e
                     | Inr p \<Rightarrow> Inr (queries, content', Some p))
               else Inr (queries, content', None)))"

subsection \<open>The credential\<close>

text \<open>
  Lines 91 to 94: \<open>openai.api_key\<close> is set from the configuration store and, when that
  string is empty, from the environment with the default \<open>""\<close>.
\<close>

definition resolve_api_key :: "world \<Rightarrow> world" where
  "resolve_api_key w =
     (let w1 = emit (ConfigRead ''third_party'' ''OPENAI_KEY'')
                 (w\<lparr>api_key := get_value w ''third_party'' ''OPENAI_KEY''\<rparr>)
      in if length (api_key w1) = 0
         then emit (EnvRead ''OPENAI_KEY'')
                (w1\<lparr>api_key := (case environ w1 ''OPENAI_KEY'' of None \<Rightarrow> [] | Some v \<Rightarrow> v)\<rparr>)
         else w1)"

definition api_key_message :: string where
  "api_key_message =
     ''Please set your OpenAI API key in evadb.yml file (third_party, open_api_key) or environment variable (OPENAI_KEY)''"

subsection \<open>The loop over the rows and \<open>forward\<close>\<close>

definition default_system_prompt :: string where
  "default_system_prompt = ''You are a helpful assistant that accomplishes user tasks.''"

text \<open>
  Lines 114 to 139, the request of one row. Reading \<open>self.model\<close> or
  \<open>self.temperature\<close> on an instance that was never configured raises.
\<close>

definition build_params :: "ChatGPT \<Rightarrow> string option \<Rightarrow> string \<Rightarrow> string \<Rightarrow> exn + params" where
  "build_params self prompt query content' =
     (case self_model self of
        None \<Rightarrow> Inl (AttributeError ''model'')
      | Some m \<Rightarrow>
          (case self_temperature self of
             None \<Rightarrow> Inl (AttributeError ''temperature'')
           | Some t \<Rightarrow>
               (let params0 = \<lparr>model = m, temperature = t, messages = []\<rparr>;
                    def_sys_prompt_message =
                      \<lparr>role = ''system'',
                       content = (case prompt of Some p \<Rightarrow> p | None \<Rightarrow> default_system_prompt)\<rparr>;
                    params1 = params0\<lparr>messages := messages params0 @ [def_sys_prompt_message]\<rparr>;
                    params2 = params1\<lparr>messages := messages params1 @
                      [\<lparr>role = ''user'', content = ''Here is some context : '' @ content'\<rparr>,
                       \<lparr>role = ''user'', content = ''Complete the following task: '' @ query\<rparr>]\<rparr>
                in Inr params2)))"

text \<open>
  The \<open>for\<close> loop over \<open>zip(queries, content)\<close>, with \<open>results\<close> as accumulator: each
  row builds its request, calls \<open>completion_with_backoff\<close> and appends the answer. (The
  loop variable \<open>content\<close> hides the column of that name; the pairs have been formed
  from the columns before.)
\<close>

fun forward_loop ::
  "ChatGPT \<Rightarrow> string option \<Rightarrow> (string \<times> string) list \<Rightarrow> string list \<Rightarrow> world
   \<Rightarrow> (exn + string list) \<times> world" where
  "forward_loop self prompt [] results w = (Inr results, w)"
| "forward_loop self prompt ((query, content') # rest) results w =
     (case build_params self prompt query content' of
        Inl e \<Rightarrow> (Inl e, w)
      | Inr kwargs \<Rightarrow>
          (case completion_with_backoff kwargs w of
             (Inl e, w') \<Rightarrow> (Inl e, w')
           | (Inr answer, w') \<Rightarrow> forward_loop self prompt rest (results @ [answer]) w'))"

text \<open>
  \<open>forward(self, text_df)\<close>: the import, the credential and its assertion, the columns,
  the loop, and the frame \<open>pd.DataFrame({"response": results})\<close>.
\<close>

definition forward :: "ChatGPT \<Rightarrow> dataframe \<Rightarrow> world \<Rightarrow> (exn + dataframe) \<times> world" where
  "forward self text_df w =
     (case try_to_import_openai w of
        Some e \<Rightarrow> (Inl e, w)
      | None \<Rightarrow>
          (let w1 = resolve_api_key w
           in if length (api_key w1) = 0 then (Inl (AssertionError api_key_message), w1)
              else (case select_columns text_df of
                      Inl e \<Rightarrow> (Inl e, w1)
                    | Inr (queries, content', prompt) \<Rightarrow>
                        (case forward_loop self prompt (zip queries content') [] w1 of
                           (Inl e, w2) \<Rightarrow> (Inl e, w2)
                         | (Inr results, w2) \<Rightarrow> (Inr [(''response'', results)], w2)))))"

subsection \<open>Inputs for the examples\<close>

text \<open>
  A configured instance; a world whose configuration store and environment hold the given
  keys and whose remote endpoint is the given function; remote endpoints that raise on the
  first two calls and answer from the third, or raise whenever the task is \<open>q1\<close>; and
  frames with one column, with three columns and two rows, with three columns and no row.
\<close>

definition configured :: ChatGPT where
  "configured = \<lparr>self_model = Some ''gpt-3.5-turbo'', self_temperature = Some 0\<rparr>"

definition reply :: "string \<Rightarrow> exn + response" where
  "reply text = Inr \<lparr>choices = [\<lparr>message = \<lparr>role = ''assistant'', content = text\<rparr>\<rparr>]\<rparr>"

definition fails_twice :: "nat \<Rightarrow> params \<Rightarrow> exn + response" where
  "fails_twice n kwargs = (if n < 2 then Inl (ClientError ''Rate limit reached'') else reply ''A summary.'')"

definition fails_on_q1 :: "nat \<Rightarrow> params \<Rightarrow> exn + response" where
  "fails_on_q1 n kwargs =
     (if \<lparr>role = ''user'', content = ''Complete the following task: q1''\<rparr> \<in> set (messages kwargs)
      then Inl (ClientError ''Request timed out'') else reply ''fine'')"

definition remote_world :: "string \<Rightarrow> string option \<Rightarrow> (nat \<Rightarrow> params \<Rightarrow> exn + response) \<Rightarrow> world" where
  "remote_world stored env remote =
     \<lparr>try_to_import_openai = None,
      get_value = (\<lambda>section key. if section = ''third_party'' \<and> key = ''OPENAI_KEY'' then stored else []),
      environ = (\<lambda>name. if name = ''OPENAI_KEY'' then env else None),
      api_key = [], create = remote, calls = 0, trace = []\<rparr>"

definition frame1 :: dataframe where
  "frame1 = [(''query'', [''summarize''])]"

definition frame3 :: dataframe where
  "frame3 = [(''query'', [''q1'', ''q2'']), (''content'', [''c1'', ''c2'']),
             (''prompt'', [''Be terse.'', ''unused''])]"

definition empty_frame3 :: dataframe where
  "empty_frame3 = [(''query'', []), (''content'', []), (''prompt'', [])]"

section \<open>Properties\<close>

subsection \<open>The decorated call makes one attempt\<close>

text \<open>
  The body of \<open>completion_with_backoff\<close> turns every \<open>Exception\<close> into an answer, so
  the decorator never sees one: the decorated function is one remote call, with no sleep.
\<close>

lemma answer_of_not_Exception:
  "answer_of outcome = Inl e \<Longrightarrow> \<not> is_Exception e"
  by (auto simp: answer_of_def split: sum.splits if_splits)

lemma completion_with_backoff_eq:
  "completion_with_backoff kwargs w =
     (answer_of (create w (calls w) kwargs),
      w\<lparr>calls := Suc (calls w), trace := trace w @ [RemoteCall kwargs]\<rparr>)"
proof (cases "answer_of (create w (calls w) kwargs)")
  case (Inl e)
  then have "\<not> is_Exception e" by (rule answer_of_not_Exception)
  with Inl show ?thesis
    by (simp add: completion_with_backoff_def retry.simps [of 6] completion_body_def
        ChatCompletion_create_def emit_def)
next
  case (Inr a)
  then show ?thesis
    by (simp add: completion_with_backoff_def retry.simps [of 6] completion_body_def
        ChatCompletion_create_def emit_def)
qed

text \<open>
  The decorator itself does retry when the function it wraps raises: around the bare
  remote call it makes three calls with two sleeps of 20 when the first two calls fail,
  and gives up after six calls and five sleeps when every call fails.
\<close>

lemma retry_of_bare_call_retries:
  "retry 6 20 (ChatCompletion_create kwargs) (remote_world ''sk-test'' None fails_twice) =
     (reply ''A summary.'',
      (remote_world ''sk-test'' None fails_twice)
        \<lparr>calls := 3,
         trace := [RemoteCall kwargs, Sleep 20, RemoteCall kwargs, Sleep 20, RemoteCall kwargs]\<rparr>)"
  by (simp add: retry.simps [of 6] retry.simps [of 5] retry.simps [of 4]
      ChatCompletion_create_def sleep_def emit_def remote_world_def fails_twice_def reply_def)

lemma retry_of_bare_call_gives_up:
  "retry 6 20 (ChatCompletion_create kwargs)
       (remote_world ''sk-test'' None (\<lambda>n p. Inl (ClientError ''Rate limit reached''))) =
     (Inl (ClientError ''Rate limit reached''),
      (remote_world ''sk-test'' None (\<lambda>n p. Inl (ClientError ''Rate limit reached'')))
        \<lparr>calls := 6,
         trace := [RemoteCall kwargs, Sleep 20, RemoteCall kwargs, Sleep 20, RemoteCall kwargs,
                   Sleep 20, RemoteCall kwargs, Sleep 20, RemoteCall kwargs, Sleep 20,
                   RemoteCall kwargs]\<rparr>)"
  by (simp add: retry.simps [of 6] retry.simps [of 5] retry.simps [of 4] retry.simps [of 3]
      retry.simps [of 2] retry.simps [of "Suc 0"]
      ChatCompletion_create_def sleep_def emit_def remote_world_def)

lemma sleeps_append: "sleeps (xs @ ys) = sleeps xs @ sleeps ys"
  by (induction xs rule: sleeps.induct) simp_all

lemma config_reads_append: "config_reads (xs @ ys) = config_reads xs @ config_reads ys"
  by (induction xs rule: config_reads.induct) simp_all

lemma requests_RemoteCall: "requests (map RemoteCall ps) = ps"
  by (induction ps) simp_all

lemma sleeps_RemoteCall: "sleeps (map RemoteCall ps) = []"
  by (induction ps) simp_all

lemma config_reads_RemoteCall: "config_reads (map RemoteCall ps) = []"
  by (induction ps) simp_all

lemma forward_loop_run:
  "forward_loop self prompt rows results w = (r, w') \<Longrightarrow>
   \<exists>reqs. w' = w\<lparr>calls := calls w + length reqs, trace := trace w @ map RemoteCall reqs\<rparr>
     \<and> length reqs \<le> length rows
     \<and> (\<forall>i<length reqs. build_params self prompt (fst (rows ! i)) (snd (rows ! i)) = Inr (reqs ! i))
     \<and> (\<forall>res. r = Inr res \<longrightarrow> length reqs = length rows \<and>
          (\<exists>answers. res = results @ answers \<and> length answers = length rows \<and>
             (\<forall>i<length rows. answer_of (create w (calls w + i) (reqs ! i)) = Inr (answers ! i))))"
proof (induction rows arbitrary: results w)
  case Nil
  then have "r = Inr results" and "w' = w" by simp_all
  then show ?case by (intro exI [of _ "[]"]) simp
next
  case (Cons row rest)
  obtain query content' where row: "row = (query, content')" by (cases row)
  show ?case
  proof (cases "build_params self prompt query content'")
    case (Inl e)
    with Cons.prems row have "r = Inl e" and "w' = w" by simp_all
    then show ?thesis by (intro exI [of _ "[]"]) simp
  next
    case (Inr kwargs)
    let ?w1 = "w\<lparr>calls := Suc (calls w), trace := trace w @ [RemoteCall kwargs]\<rparr>"
    show ?thesis
    proof (cases "answer_of (create w (calls w) kwargs)")
      case (Inl e)
      with Cons.prems row Inr have "r = Inl e" and "w' = ?w1"
        by (simp_all add: completion_with_backoff_eq)
      then show ?thesis using Inr row by (intro exI [of _ "[kwargs]"]) simp
    next
      case answer: (Inr answer)
      with Cons.prems row Inr
      have "forward_loop self prompt rest (results @ [answer]) ?w1 = (r, w')"
        by (simp add: completion_with_backoff_eq)
      from Cons.IH [OF this] obtain reqs where
        w': "w' = ?w1\<lparr>calls := calls ?w1 + length reqs, trace := trace ?w1 @ map RemoteCall reqs\<rparr>"
        and len: "length reqs \<le> length rest"
        and built: "\<forall>i<length reqs. build_params self prompt (fst (rest ! i)) (snd (rest ! i)) = Inr (reqs ! i)"
        and fin: "\<forall>res. r = Inr res \<longrightarrow> length reqs = length rest \<and>
          (\<exists>answers. res = (results @ [answer]) @ answers \<and> length answers = length rest \<and>
             (\<forall>i<length rest. answer_of (create ?w1 (calls ?w1 + i) (reqs ! i)) = Inr (answers ! i)))"
        by blast
      have a: "w' = w\<lparr>calls := calls w + length (kwargs # reqs),
                      trace := trace w @ map RemoteCall (kwargs # reqs)\<rparr>"
        using w' by simp
      have b: "length (kwargs # reqs) \<le> length (row # rest)" using len by simp
      have c: "\<forall>i<length (kwargs # reqs).
                 build_params self prompt (fst ((row # rest) ! i)) (snd ((row # rest) ! i))
                   = Inr ((kwargs # reqs) ! i)"
        using built Inr row by (auto simp: nth_Cons split: nat.splits)
      have d: "\<forall>res. r = Inr res \<longrightarrow> length (kwargs # reqs) = length (row # rest) \<and>
          (\<exists>answers. res = results @ answers \<and> length answers = length (row # rest) \<and>
             (\<forall>i<length (row # rest).
                answer_of (create w (calls w + i) ((kwargs # reqs) ! i)) = Inr (answers ! i)))"
      proof (intro allI impI)
        fix res assume "r = Inr res"
        with fin obtain answers where
          1: "length reqs = length rest" and 2: "res = (results @ [answer]) @ answers"
          and 3: "length answers = length rest"
          and 4: "\<forall>i<length rest. answer_of (create w (Suc (calls w) + i) (reqs ! i)) = Inr (answers ! i)"
          by auto
        have "\<forall>i<length (row # rest).
                answer_of (create w (calls w + i) ((kwargs # reqs) ! i)) = Inr ((answer # answers) ! i)"
          using 4 answer by (auto simp: nth_Cons split: nat.splits)
        with 1 2 3 show "length (kwargs # reqs) = length (row # rest) \<and>
          (\<exists>answers. res = results @ answers \<and> length answers = length (row # rest) \<and>
             (\<forall>i<length (row # rest).
                answer_of (create w (calls w + i) ((kwargs # reqs) ! i)) = Inr (answers ! i)))"
          by (intro conjI exI [of _ "answer # answers"]) simp_all
      qed
      from a b c d show ?thesis by blast
    qed
  qed
qed

subsection \<open>Runs of the loop and of \<open>forward\<close>\<close>

text \<open>
  What a run of \<open>forward\<close> leaves in the world: the events of the credential lookup,
  then one request per processed row, each built from that row.
\<close>

lemma answer_of_Inr:
  "(\<And>e. outcome = Inl e \<Longrightarrow> is_Exception e) \<Longrightarrow> \<exists>a. answer_of outcome = Inr a"
  by (cases outcome) (auto simp: answer_of_def first_choice_content_def split: list.splits)

lemma build_params_configured:
  "self_model self = Some m \<Longrightarrow> self_temperature self = Some t \<Longrightarrow>
   build_params self prompt query content' =
     Inr \<lparr>model = m, temperature = t,
          messages =
            [\<lparr>role = ''system'',
              content = (case prompt of Some p \<Rightarrow> p | None \<Rightarrow> default_system_prompt)\<rparr>,
             \<lparr>role = ''user'', content = ''Here is some context : '' @ content'\<rparr>,
             \<lparr>role = ''user'', content = ''Complete the following task: '' @ query\<rparr>]\<rparr>"
  by (simp add: build_params_def)

lemma build_params_Inr:
  "build_params self prompt query content' = Inr p \<Longrightarrow>
   \<exists>m t. self_model self = Some m \<and> self_temperature self = Some t \<and>
     p = \<lparr>model = m, temperature = t,
          messages =
            [\<lparr>role = ''system'',
              content = (case prompt of Some p \<Rightarrow> p | None \<Rightarrow> default_system_prompt)\<rparr>,
             \<lparr>role = ''user'', content = ''Here is some context : '' @ content'\<rparr>,
             \<lparr>role = ''user'', content = ''Complete the following task: '' @ query\<rparr>]\<rparr>"
  by (auto simp: build_params_def split: option.splits)

lemma forward_loop_completes:
  assumes "self_model self = Some m" and "self_temperature self = Some t"
    and "\<forall>i<length rows. \<forall>p e.
           build_params self prompt (fst (rows ! i)) (snd (rows ! i)) = Inr p \<longrightarrow>
           create w (calls w + i) p = Inl e \<longrightarrow> is_Exception e"
  shows "\<exists>res w'. forward_loop self prompt rows results w = (Inr res, w')"
  using assms(3)
proof (induction rows arbitrary: results w)
  case Nil
  show ?case by simp
next
  case (Cons row rest)
  obtain query content' where row: "row = (query, content')" by (cases row)
  obtain kwargs where kw: "build_params self prompt query content' = Inr kwargs"
    using build_params_configured [OF assms(1,2)] by blast
  let ?w1 = "w\<lparr>calls := Suc (calls w), trace := trace w @ [RemoteCall kwargs]\<rparr>"
  have "\<And>e. create w (calls w) kwargs = Inl e \<Longrightarrow> is_Exception e"
    using Cons.prems kw row by fastforce
  then obtain answer where ans: "answer_of (create w (calls w) kwargs) = Inr answer"
    using answer_of_Inr by blast
  have "\<forall>i<length rest. \<forall>p e.
           build_params self prompt (fst (rest ! i)) (snd (rest ! i)) = Inr p \<longrightarrow>
           create ?w1 (calls ?w1 + i) p = Inl e \<longrightarrow> is_Exception e"
  proof (intro allI impI)
    fix i p e
    assume "i < length rest"
      and "build_params self prompt (fst (rest ! i)) (snd (rest ! i)) = Inr p"
      and "create ?w1 (calls ?w1 + i) p = Inl e"
    then show "is_Exception e"
      using Cons.prems [rule_format, of "Suc i" p e] by simp
  qed
  from Cons.IH [OF this, of "results @ [answer]"] show ?case
    using kw ans row by (simp add: completion_with_backoff_eq)
qed

lemma select_columns_Inr:
  "select_columns df = Inr (queries, content', prompt) \<Longrightarrow>
   df \<noteq> [] \<and> queries = snd (df ! 0) \<and>
   content' = snd (df ! (if length df > 1 then 1 else 0)) \<and>
   prompt = (if length df > 2 then Some (snd (df ! 2) ! 0) else None) \<and>
   (length df > 2 \<longrightarrow> snd (df ! 2) \<noteq> [])"
  by (auto simp: select_columns_def iloc_col_def iloc_def split: list.splits if_splits)

lemma resolve_api_key_eq:
  "resolve_api_key w =
     (if get_value w ''third_party'' ''OPENAI_KEY'' = []
      then w\<lparr>api_key := (case environ w ''OPENAI_KEY'' of None \<Rightarrow> [] | Some v \<Rightarrow> v),
             trace := trace w @ [ConfigRead ''third_party'' ''OPENAI_KEY'', EnvRead ''OPENAI_KEY'']\<rparr>
      else w\<lparr>api_key := get_value w ''third_party'' ''OPENAI_KEY'',
             trace := trace w @ [ConfigRead ''third_party'' ''OPENAI_KEY'']\<rparr>)"
  by (simp add: resolve_api_key_def emit_def Let_def)

lemma forward_cases:
  assumes "forward self df w = (r, w')"
  obtains
    (import_fails) e where "try_to_import_openai w = Some e" and "r = Inl e" and "w' = w"
  | (no_key) "try_to_import_openai w = None" and "api_key (resolve_api_key w) = []"
      and "r = Inl (AssertionError api_key_message)" and "w' = resolve_api_key w"
  | (bad_frame) e where "try_to_import_openai w = None" and "api_key (resolve_api_key w) \<noteq> []"
      and "select_columns df = Inl e" and "r = Inl e" and "w' = resolve_api_key w"
  | (loop_fails) queries content' prompt e where
      "try_to_import_openai w = None" and "api_key (resolve_api_key w) \<noteq> []"
      and "select_columns df = Inr (queries, content', prompt)"
      and "forward_loop self prompt (zip queries content') [] (resolve_api_key w) = (Inl e, w')"
      and "r = Inl e"
  | (completes) queries content' prompt results where
      "try_to_import_openai w = None" and "api_key (resolve_api_key w) \<noteq> []"
      and "select_columns df = Inr (queries, content', prompt)"
      and "forward_loop self prompt (zip queries content') [] (resolve_api_key w) = (Inr results, w')"
      and "r = Inr [(''response'', results)]"
  using assms
  by (auto simp: forward_def Let_def split: option.splits if_splits sum.splits prod.splits)

lemma resolve_api_key_unchanged:
  "create (resolve_api_key w) = create w" "calls (resolve_api_key w) = calls w"
  by (simp_all add: resolve_api_key_eq)

lemma emitted_resolve:
  assumes "trace w' = trace (resolve_api_key w) @ map RemoteCall reqs"
  shows "emitted w w' =
           ConfigRead ''third_party'' ''OPENAI_KEY'' #
           (if get_value w ''third_party'' ''OPENAI_KEY'' = [] then [EnvRead ''OPENAI_KEY''] else [])
           @ map RemoteCall reqs"
  using assms by (simp add: emitted_def resolve_api_key_eq)

lemma requests_emitted_resolve:
  assumes "trace w' = trace (resolve_api_key w) @ map RemoteCall reqs"
  shows "requests (emitted w w') = reqs"
  by (simp add: emitted_resolve [OF assms] requests_RemoteCall)

lemma forward_requests:
  assumes "forward self df w = (r, w')" and "i < length (requests (emitted w w'))"
  shows "df \<noteq> [] \<and> i < length (snd (df ! 0)) \<and>
         i < length (snd (df ! (if length df > 1 then 1 else 0))) \<and>
         (length df > 2 \<longrightarrow> snd (df ! 2) \<noteq> []) \<and>
         build_params self (if length df > 2 then Some (snd (df ! 2) ! 0) else None)
           (snd (df ! 0) ! i) (snd (df ! (if length df > 1 then 1 else 0)) ! i)
           = Inr (requests (emitted w w') ! i)"
  using assms(1)
proof (cases rule: forward_cases)
  case (import_fails e)
  with assms(2) show ?thesis by (simp add: emitted_def)
next
  case no_key
  then have "trace w' = trace (resolve_api_key w) @ map RemoteCall []" by simp
  from requests_emitted_resolve [OF this] assms(2) show ?thesis by simp
next
  case (bad_frame e)
  then have "trace w' = trace (resolve_api_key w) @ map RemoteCall []" by simp
  from requests_emitted_resolve [OF this] assms(2) show ?thesis by simp
next
  case (loop_fails queries content' prompt e)
  from forward_loop_run [OF loop_fails(4)] obtain reqs where
    w': "w' = (resolve_api_key w)\<lparr>calls := calls (resolve_api_key w) + length reqs,
                trace := trace (resolve_api_key w) @ map RemoteCall reqs\<rparr>"
    and len: "length reqs \<le> length (zip queries content')"
    and built: "\<forall>i<length reqs. build_params self prompt (fst (zip queries content' ! i))
                  (snd (zip queries content' ! i)) = Inr (reqs ! i)"
    by blast
  from w' have "trace w' = trace (resolve_api_key w) @ map RemoteCall reqs" by simp
  then have reqs: "requests (emitted w w') = reqs" by (rule requests_emitted_resolve)
  with assms(2) len have i: "i < length reqs" "i < length queries" "i < length content'" by simp_all
  with built have "build_params self prompt (queries ! i) (content' ! i) = Inr (reqs ! i)"
    by fastforce
  with select_columns_Inr [OF loop_fails(3)] i reqs show ?thesis by simp
next
  case (completes queries content' prompt results)
  from forward_loop_run [OF completes(4)] obtain reqs where
    w': "w' = (resolve_api_key w)\<lparr>calls := calls (resolve_api_key w) + length reqs,
                trace := trace (resolve_api_key w) @ map RemoteCall reqs\<rparr>"
    and len: "length reqs \<le> length (zip queries content')"
    and built: "\<forall>i<length reqs. build_params self prompt (fst (zip queries content' ! i))
                  (snd (zip queries content' ! i)) = Inr (reqs ! i)"
    by blast
  from w' have "trace w' = trace (resolve_api_key w) @ map RemoteCall reqs" by simp
  then have reqs: "requests (emitted w w') = reqs" by (rule requests_emitted_resolve)
  with assms(2) len have i: "i < length reqs" "i < length queries" "i < length content'" by simp_all
  with built have "build_params self prompt (queries ! i) (content' ! i) = Inr (reqs ! i)"
    by fastforce
  with select_columns_Inr [OF completes(3)] i reqs show ?thesis by simp
qed

lemma forward_Inr:
  assumes "forward self df w = (Inr out, w')"
  shows "\<exists>answers. out = [(''response'', answers)] \<and> df \<noteq> [] \<and>
           length answers = min (length (snd (df ! 0)))
                                (length (snd (df ! (if length df > 1 then 1 else 0)))) \<and>
           length (requests (emitted w w')) = length answers \<and>
           (\<forall>i<length answers.
              answer_of (create w (calls w + i) (requests (emitted w w') ! i)) = Inr (answers ! i))"
  using assms
proof (cases rule: forward_cases)
  case (completes queries content' prompt results)
  from forward_loop_run [OF completes(4)] obtain reqs where
    w': "w' = (resolve_api_key w)\<lparr>calls := calls (resolve_api_key w) + length reqs,
                trace := trace (resolve_api_key w) @ map RemoteCall reqs\<rparr>"
    and fin: "\<forall>res. Inr results = Inr res \<longrightarrow> length reqs = length (zip queries content') \<and>
          (\<exists>answers. res = [] @ answers \<and> length answers = length (zip queries content') \<and>
             (\<forall>i<length (zip queries content').
                answer_of (create (resolve_api_key w) (calls (resolve_api_key w) + i) (reqs ! i))
                  = Inr (answers ! i)))"
    by blast
  from w' have "trace w' = trace (resolve_api_key w) @ map RemoteCall reqs" by simp
  then have reqs: "requests (emitted w w') = reqs" by (rule requests_emitted_resolve)
  from fin have "length reqs = length (zip queries content')"
    and "length results = length (zip queries content')"
    and "\<forall>i<length (zip queries content').
           answer_of (create w (calls w + i) (reqs ! i)) = Inr (results ! i)"
    by (auto simp: resolve_api_key_unchanged)
  with select_columns_Inr [OF completes(3)] reqs completes(5) show ?thesis by simp
qed simp_all

lemma rectangular_column:
  "rectangular df \<Longrightarrow> j < length df \<Longrightarrow> length (snd (df ! j)) = len df"
proof -
  assume r: "rectangular df" and j: "j < length df"
  from j have "df ! j \<in> set df" by simp
  with r have "length (snd (df ! j)) = length (snd (hd df))"
    unfolding rectangular_def by blast
  moreover from j have "len df = length (snd (hd df))"
    by (cases df) (simp_all add: len_def)
  ultimately show ?thesis by simp
qed

lemma select_columns_ok:
  assumes "df \<noteq> []" and "length df > 2 \<longrightarrow> snd (df ! 2) \<noteq> []"
  shows "select_columns df =
           Inr (snd (df ! 0), snd (df ! (if length df > 1 then 1 else 0)),
                if length df > 2 then Some (snd (df ! 2) ! 0) else None)"
  using assms
  by (cases df) (auto simp: select_columns_def iloc_col_def iloc_def)

lemma answer_of_Inl: "answer_of (Inl e) = (if is_Exception e then Inr (str e) else Inl e)"
  by (simp add: answer_of_def)

lemma forward_world:
  assumes "try_to_import_openai w = None" and "forward self df w = (r, w')"
  shows "\<exists>reqs. w' = (resolve_api_key w)\<lparr>calls := calls w + length reqs,
                     trace := trace (resolve_api_key w) @ map RemoteCall reqs\<rparr>
           \<and> (api_key (resolve_api_key w) = [] \<longrightarrow>
                 reqs = [] \<and> r = Inl (AssertionError api_key_message))"
  using assms(2)
proof (cases rule: forward_cases)
  case (import_fails e)
  with assms(1) show ?thesis by simp
next
  case no_key
  then show ?thesis by (intro exI [of _ "[]"]) (simp add: resolve_api_key_unchanged)
next
  case (bad_frame e)
  then show ?thesis by (intro exI [of _ "[]"]) (simp add: resolve_api_key_unchanged)
next
  case (loop_fails queries content' prompt e)
  from forward_loop_run [OF loop_fails(4)] loop_fails(2) show ?thesis
    by (auto simp: resolve_api_key_unchanged)
next
  case (completes queries content' prompt results)
  from forward_loop_run [OF completes(4)] completes(2) show ?thesis
    by (auto simp: resolve_api_key_unchanged)
qed

text \<open>Runs on the example inputs, computed by unfolding the definitions.\<close>

lemmas run_simps =
  forward_def resolve_api_key_eq select_columns_def iloc_col_def iloc_def build_params_def
  completion_with_backoff_eq answer_of_def first_choice_content_def default_system_prompt_def
  emitted_def remote_world_def configured_def reply_def



lemma run_frame3:
  "forward configured frame3 (remote_world ''sk-test'' None fails_on_q1) =
    (Inr [(''response'', [''Request timed out'', ''fine''])],
     (remote_world ''sk-test'' None fails_on_q1)
       \<lparr>api_key := ''sk-test'', calls := 2,
        trace := [ConfigRead ''third_party'' ''OPENAI_KEY'',
          RemoteCall \<lparr>model = ''gpt-3.5-turbo'', temperature = 0, messages =
            [\<lparr>role = ''system'', content = ''Be terse.''\<rparr>,
             \<lparr>role = ''user'', content = ''Here is some context : c1''\<rparr>,
             \<lparr>role = ''user'', content = ''Complete the following task: q1''\<rparr>]\<rparr>,
          RemoteCall \<lparr>model = ''gpt-3.5-turbo'', temperature = 0, messages =
            [\<lparr>role = ''system'', content = ''Be terse.''\<rparr>,
             \<lparr>role = ''user'', content = ''Here is some context : c2''\<rparr>,
             \<lparr>role = ''user'', content = ''Complete the following task: q2''\<rparr>]\<rparr>]\<rparr>)"
  by (simp add: run_simps frame3_def fails_on_q1_def)

lemma run_frame1:
  "forward configured frame1 (remote_world ''sk-test'' None fails_twice) =
    (Inr [(''response'', [''Rate limit reached''])],
     (remote_world ''sk-test'' None fails_twice)
       \<lparr>api_key := ''sk-test'', calls := 1,
        trace := [ConfigRead ''third_party'' ''OPENAI_KEY'',
          RemoteCall \<lparr>model = ''gpt-3.5-turbo'', temperature = 0, messages =
            [\<lparr>role = ''system'', content = ''You are a helpful assistant that accomplishes user tasks.''\<rparr>,
             \<lparr>role = ''user'', content = ''Here is some context : summarize''\<rparr>,
             \<lparr>role = ''user'', content = ''Complete the following task: summarize''\<rparr>]\<rparr>]\<rparr>)"
  by (simp add: run_simps frame1_def fails_twice_def)

lemma run_empty:
  "forward configured empty_frame3 (remote_world ''sk-test'' None fails_twice) =
     (Inl (IndexError ''single positional indexer is out-of-bounds''),
      (remote_world ''sk-test'' None fails_twice)
        \<lparr>api_key := ''sk-test'', trace := [ConfigRead ''third_party'' ''OPENAI_KEY'']\<rparr>)"
  by (simp add: run_simps empty_frame3_def fails_twice_def)

lemma requests_run_frame3:
  "requests (emitted (remote_world ''sk-test'' None fails_on_q1)
      (snd (forward configured frame3 (remote_world ''sk-test'' None fails_on_q1)))) =
     [\<lparr>model = ''gpt-3.5-turbo'', temperature = 0, messages =
         [\<lparr>role = ''system'', content = ''Be terse.''\<rparr>,
          \<lparr>role = ''user'', content = ''Here is some context : c1''\<rparr>,
          \<lparr>role = ''user'', content = ''Complete the following task: q1''\<rparr>]\<rparr>,
      \<lparr>model = ''gpt-3.5-turbo'', temperature = 0, messages =
         [\<lparr>role = ''system'', content = ''Be terse.''\<rparr>,
          \<lparr>role = ''user'', content = ''Here is some context : c2''\<rparr>,
          \<lparr>role = ''user'', content = ''Complete the following task: q2''\<rparr>]\<rparr>]"
  by (simp add: run_frame3) (simp add: emitted_def remote_world_def)

lemma requests_run_frame1:
  "requests (emitted (remote_world ''sk-test'' None fails_twice)
      (snd (forward configured frame1 (remote_world ''sk-test'' None fails_twice)))) =
     [\<lparr>model = ''gpt-3.5-turbo'', temperature = 0, messages =
         [\<lparr>role = ''system'', content = ''You are a helpful assistant that accomplishes user tasks.''\<rparr>,
          \<lparr>role = ''user'', content = ''Here is some context : summarize''\<rparr>,
          \<lparr>role = ''user'', content = ''Complete the following task: summarize''\<rparr>]\<rparr>]"
  by (simp add: run_frame1) (simp add: emitted_def remote_world_def)

text \<open>
  Consequences for every run: the decorated call is one request and no sleep, so a run of
  \<open>forward\<close> never sleeps; and a frame without rows and without a prompt column gives
  the empty \<open>response\<close> frame.
\<close>

lemma completion_with_backoff_single_attempt:
  "requests (emitted w (snd (completion_with_backoff kwargs w))) = [kwargs]
   \<and> sleeps (emitted w (snd (completion_with_backoff kwargs w))) = []"
  by (simp add: completion_with_backoff_eq emitted_def)

lemma forward_never_sleeps:
  assumes "forward self df w = (r, w')"
  shows "sleeps (emitted w w') = []"
proof (cases "try_to_import_openai w")
  case None
  from forward_world [OF None assms] obtain reqs where
    "trace w' = trace (resolve_api_key w) @ map RemoteCall reqs" by auto
  from emitted_resolve [OF this] show ?thesis
    by (simp add: sleeps_append sleeps_RemoteCall)
next
  case (Some e)
  with assms show ?thesis by (simp add: forward_def emitted_def)
qed

lemma forward_zero_rows_without_prompt:
  assumes "try_to_import_openai w = None" and "api_key (resolve_api_key w) \<noteq> []"
    and "df \<noteq> []" and "length df \<le> 2" and "len df = 0"
  shows "forward self df w = (Inr [(''response'', [])], resolve_api_key w)"
proof -
  from assms(3,5) have "snd (df ! 0) = []" by (cases df) (simp_all add: len_def)
  moreover from assms(3,4) have "select_columns df =
      Inr (snd (df ! 0), snd (df ! (if length df > 1 then 1 else 0)), None)"
    using select_columns_ok [of df] by simp
  ultimately show ?thesis using assms(1,2) by (simp add: forward_def)
qed

subsection \<open>Configuration\<close>

text \<open>
  C4. \<open>setup(model, temperature)\<close> succeeds for every model in the set \<open>gpt-4\<close>,
  \<open>gpt-4-0314\<close>, \<open>gpt-4-32k\<close>, \<open>gpt-4-32k-0314\<close>, \<open>gpt-3.5-turbo\<close>,
  \<open>gpt-3.5-turbo-0301\<close> and fails with an assertion error for every model outside it;
  on success the instance holds the model and the temperature, and an argument that is
  left out takes its default, \<open>gpt-3.5-turbo\<close> for the model and 0 for the temperature.
\<close>

theorem setup_accepts_exactly_supported_models:
  "(m \<in> {''gpt-4'', ''gpt-4-0314'', ''gpt-4-32k'', ''gpt-4-32k-0314'',
          ''gpt-3.5-turbo'', ''gpt-3.5-turbo-0301''} \<longrightarrow>
      ChatGPT_setup self (Some m) (Some t)
        = (Inr (), self\<lparr>self_model := Some m, self_temperature := Some t\<rparr>) \<and>
      ChatGPT_setup self (Some m) None
        = (Inr (), self\<lparr>self_model := Some m, self_temperature := Some 0\<rparr>))
   \<and> (m \<notin> {''gpt-4'', ''gpt-4-0314'', ''gpt-4-32k'', ''gpt-4-32k-0314'',
          ''gpt-3.5-turbo'', ''gpt-3.5-turbo-0301''} \<longrightarrow>
      fst (ChatGPT_setup self (Some m) temperature_arg)
        = Inl (AssertionError (''Unsupported ChatGPT '' @ m)))
   \<and> ChatGPT_setup self None (Some t)
        = (Inr (), self\<lparr>self_model := Some ''gpt-3.5-turbo'', self_temperature := Some t\<rparr>)
   \<and> ChatGPT_setup self None None
        = (Inr (), self\<lparr>self_model := Some ''gpt-3.5-turbo'', self_temperature := Some 0\<rparr>)"
  by (simp add: ChatGPT_setup_def VALID_CHAT_COMPLETION_MODEL_def)

theorem setup_accepts_exactly_supported_models_witness:
  "ChatGPT_setup \<lparr>self_model = None, self_temperature = None\<rparr> (Some ''gpt-4-32k'') (Some (7 / 10))
     = (Inr (), \<lparr>self_model = Some ''gpt-4-32k'', self_temperature = Some (7 / 10)\<rparr>)
   \<and> fst (ChatGPT_setup \<lparr>self_model = None, self_temperature = None\<rparr> (Some ''gpt-5'') None)
     = Inl (AssertionError ''Unsupported ChatGPT gpt-5'')"
  using setup_accepts_exactly_supported_models
          [of "''gpt-4-32k''" "\<lparr>self_model = None, self_temperature = None\<rparr>" "7 / 10" None]
        setup_accepts_exactly_supported_models
          [of "''gpt-5''" "\<lparr>self_model = None, self_temperature = None\<rparr>" 0 None]
  by simp

text \<open>
  C9. When \<open>setup\<close> is called with a model outside the supported list, the assertion
  fails before any assignment: the instance is left as it was, whether it held earlier
  values or none. More generally, whenever \<open>setup\<close> raises, the instance is unchanged.
\<close>

theorem setup_failure_keeps_instance:
  "(m \<notin> set VALID_CHAT_COMPLETION_MODEL \<longrightarrow>
      ChatGPT_setup self (Some m) temperature_arg
        = (Inl (AssertionError (''Unsupported ChatGPT '' @ m)), self))
   \<and> (\<forall>e. fst (ChatGPT_setup self model_arg temperature_arg) = Inl e \<longrightarrow>
          snd (ChatGPT_setup self model_arg temperature_arg) = self)"
  by (simp add: ChatGPT_setup_def Let_def)

theorem setup_failure_keeps_instance_witness:
  "ChatGPT_setup \<lparr>self_model = Some ''gpt-4'', self_temperature = Some (1 / 2)\<rparr> (Some ''davinci'') (Some 1)
     = (Inl (AssertionError ''Unsupported ChatGPT davinci''),
        \<lparr>self_model = Some ''gpt-4'', self_temperature = Some (1 / 2)\<rparr>)
   \<and> snd (ChatGPT_setup \<lparr>self_model = None, self_temperature = None\<rparr> (Some ''davinci'') None)
     = \<lparr>self_model = None, self_temperature = None\<rparr>"
proof -
  have out: "''davinci'' \<notin> set VALID_CHAT_COMPLETION_MODEL"
    by (simp add: VALID_CHAT_COMPLETION_MODEL_def)
  have raised: "fst (ChatGPT_setup \<lparr>self_model = None, self_temperature = None\<rparr> (Some ''davinci'') None)
      = Inl (AssertionError ''Unsupported ChatGPT davinci'')"
    by (simp add: ChatGPT_setup_def VALID_CHAT_COMPLETION_MODEL_def)
  show ?thesis
    using out raised
      setup_failure_keeps_instance
        [where m = "''davinci''" and temperature_arg = "Some 1"
           and self = "\<lparr>self_model = Some ''gpt-4'', self_temperature = Some (1 / 2)\<rparr>"]
      setup_failure_keeps_instance
        [where model_arg = "Some ''davinci''" and temperature_arg = None
           and self = "\<lparr>self_model = None, self_temperature = None\<rparr>"]
    by simp
qed

subsection \<open>The credential\<close>

text \<open>
  C3. In a process where the client library imports, every call of \<open>forward\<close> looks
  the credential up once, before the rows: it reads \<open>(third_party, OPENAI_KEY)\<close> from
  the configuration store first and exactly once; only when that string is empty it reads
  the environment variable \<open>OPENAI_KEY\<close>; after these one or two reads the run adds
  nothing but remote calls. The key in use is the stored one when that is not empty and
  the one of the environment otherwise. When both are empty, \<open>forward\<close> raises the
  assertion error with the message that tells how to set the key, and no remote call has
  been made.
\<close>

theorem credential_resolved_once:
  assumes "try_to_import_openai w = None" and "forward self text_df w = (r, w')"
  shows "emitted w w' =
           ConfigRead ''third_party'' ''OPENAI_KEY'' #
           (if get_value w ''third_party'' ''OPENAI_KEY'' = [] then [EnvRead ''OPENAI_KEY''] else [])
           @ map RemoteCall (requests (emitted w w'))
       \<and> config_reads (emitted w w') = [(''third_party'', ''OPENAI_KEY'')]
       \<and> api_key w' =
           (if get_value w ''third_party'' ''OPENAI_KEY'' \<noteq> []
            then get_value w ''third_party'' ''OPENAI_KEY''
            else case environ w ''OPENAI_KEY'' of None \<Rightarrow> [] | Some v \<Rightarrow> v)
       \<and> (get_value w ''third_party'' ''OPENAI_KEY'' = [] \<and>
            (environ w ''OPENAI_KEY'' = None \<or> environ w ''OPENAI_KEY'' = Some []) \<longrightarrow>
            r = Inl (AssertionError api_key_message) \<and> requests (emitted w w') = [] \<and>
            calls w' = calls w)"
proof -
  from forward_world [OF assms] obtain reqs where
    w': "w' = (resolve_api_key w)\<lparr>calls := calls w + length reqs,
               trace := trace (resolve_api_key w) @ map RemoteCall reqs\<rparr>"
    and nokey: "api_key (resolve_api_key w) = [] \<longrightarrow>
                 reqs = [] \<and> r = Inl (AssertionError api_key_message)"
    by blast
  from w' have tr: "trace w' = trace (resolve_api_key w) @ map RemoteCall reqs" by simp
  have reqs: "requests (emitted w w') = reqs" using tr by (rule requests_emitted_resolve)
  have 1: "emitted w w' =
           ConfigRead ''third_party'' ''OPENAI_KEY'' #
           (if get_value w ''third_party'' ''OPENAI_KEY'' = [] then [EnvRead ''OPENAI_KEY''] else [])
           @ map RemoteCall (requests (emitted w w'))"
    using emitted_resolve [OF tr] reqs by simp
  have 2: "config_reads (emitted w w') = [(''third_party'', ''OPENAI_KEY'')]"
    by (simp add: emitted_resolve [OF tr] config_reads_append config_reads_RemoteCall)
  have 3: "api_key w' =
           (if get_value w ''third_party'' ''OPENAI_KEY'' \<noteq> []
            then get_value w ''third_party'' ''OPENAI_KEY''
            else case environ w ''OPENAI_KEY'' of None \<Rightarrow> [] | Some v \<Rightarrow> v)"
    using w' by (simp add: resolve_api_key_eq)
  have 4: "get_value w ''third_party'' ''OPENAI_KEY'' = [] \<and>
            (environ w ''OPENAI_KEY'' = None \<or> environ w ''OPENAI_KEY'' = Some []) \<longrightarrow>
            r = Inl (AssertionError api_key_message) \<and> requests (emitted w w') = [] \<and>
            calls w' = calls w"
    using nokey reqs w' by (auto simp: resolve_api_key_eq)
  from 1 2 3 4 show ?thesis by blast
qed

theorem credential_resolved_once_witness:
  "api_key (snd (forward configured frame1 (remote_world ''sk-test'' None fails_twice))) = ''sk-test''
   \<and> api_key (snd (forward configured frame1 (remote_world [] (Some ''sk-env'') fails_twice))) = ''sk-env''
   \<and> fst (forward configured frame1 (remote_world [] None fails_twice))
       = Inl (AssertionError api_key_message)
   \<and> requests (emitted (remote_world [] None fails_twice)
        (snd (forward configured frame1 (remote_world [] None fails_twice)))) = []
   \<and> config_reads (emitted (remote_world [] (Some ''sk-env'') fails_twice)
        (snd (forward configured frame1 (remote_world [] (Some ''sk-env'') fails_twice))))
       = [(''third_party'', ''OPENAI_KEY'')]"
proof -
  let ?stored = "remote_world ''sk-test'' None fails_twice"
  let ?env = "remote_world [] (Some ''sk-env'') fails_twice"
  let ?none = "remote_world [] None fails_twice"
  have i: "try_to_import_openai ?stored = None" "try_to_import_openai ?env = None"
    "try_to_import_openai ?none = None"
    by (simp_all add: remote_world_def)
  have f: "forward configured frame1 ?stored =
             (fst (forward configured frame1 ?stored), snd (forward configured frame1 ?stored))"
    "forward configured frame1 ?env =
             (fst (forward configured frame1 ?env), snd (forward configured frame1 ?env))"
    "forward configured frame1 ?none =
             (fst (forward configured frame1 ?none), snd (forward configured frame1 ?none))"
    by simp_all
  have k: "get_value ?stored ''third_party'' ''OPENAI_KEY'' = ''sk-test''"
    "get_value ?env ''third_party'' ''OPENAI_KEY'' = []"
    "environ ?env ''OPENAI_KEY'' = Some ''sk-env''"
    "get_value ?none ''third_party'' ''OPENAI_KEY'' = []"
    "environ ?none ''OPENAI_KEY'' = None"
    by (simp_all add: remote_world_def)
  from credential_resolved_once [OF i(1) f(1)] k
  have 1: "api_key (snd (forward configured frame1 ?stored)) = ''sk-test''" by simp
  from credential_resolved_once [OF i(2) f(2)] k
  have 2: "api_key (snd (forward configured frame1 ?env)) = ''sk-env''"
    and 5: "config_reads (emitted ?env (snd (forward configured frame1 ?env)))
              = [(''third_party'', ''OPENAI_KEY'')]"
    by simp_all
  from credential_resolved_once [OF i(3) f(3)] k
  have 3: "fst (forward configured frame1 ?none) = Inl (AssertionError api_key_message)"
    and 4: "requests (emitted ?none (snd (forward configured frame1 ?none))) = []"
    by simp_all
  from 1 2 3 4 5 show ?thesis by simp
qed

subsection \<open>Requests and answers\<close>

text \<open>
  C5. When \<open>forward\<close> returns a frame for a (rectangular) input frame, that frame has the
  single column \<open>response\<close> and as many rows as the input; one request was sent per
  row, in the order of the rows; request \<open>i\<close> is the one built from row \<open>i\<close> (its
  query, its content, the prompt of the batch), and output row \<open>i\<close> is the answer to
  that request, which was remote call number \<open>i\<close> of the run.
\<close>

theorem forward_output_matches_rows:
  assumes "rectangular text_df" and "forward self text_df w = (Inr out, w')"
  shows "\<exists>results. out = [(''response'', results)] \<and> len out = len text_df
           \<and> length (requests (emitted w w')) = len text_df
           \<and> (\<forall>i<len text_df.
                build_params self
                  (if length text_df > 2 then Some (snd (text_df ! 2) ! 0) else None)
                  (snd (text_df ! 0) ! i)
                  (snd (text_df ! (if length text_df > 1 then 1 else 0)) ! i)
                  = Inr (requests (emitted w w') ! i)
                \<and> answer_of (create w (calls w + i) (requests (emitted w w') ! i))
                  = Inr (results ! i))"
proof -
  from forward_Inr [OF assms(2)] obtain answers where
    out: "out = [(''response'', answers)]" and ne: "text_df \<noteq> []"
    and la: "length answers = min (length (snd (text_df ! 0)))
                                 (length (snd (text_df ! (if length text_df > 1 then 1 else 0))))"
    and lr: "length (requests (emitted w w')) = length answers"
    and ans: "\<forall>i<length answers.
              answer_of (create w (calls w + i) (requests (emitted w w') ! i)) = Inr (answers ! i)"
    by blast
  from ne have pos: "0 < length text_df" by simp
  have "length (snd (text_df ! (if length text_df > 1 then 1 else 0))) = len text_df"
    using rectangular_column [OF assms(1)] pos by simp
  moreover have "length (snd (text_df ! 0)) = len text_df"
    using rectangular_column [OF assms(1) pos] .
  ultimately have la': "length answers = len text_df" using la by simp
  have "\<forall>i<len text_df.
          build_params self
            (if length text_df > 2 then Some (snd (text_df ! 2) ! 0) else None)
            (snd (text_df ! 0) ! i)
            (snd (text_df ! (if length text_df > 1 then 1 else 0)) ! i)
            = Inr (requests (emitted w w') ! i)"
    using forward_requests [OF assms(2)] lr la' by simp
  with ans la' lr out show ?thesis by (simp add: len_def)
qed

theorem forward_output_matches_rows_witness:
  "rectangular frame3
   \<and> fst (forward configured frame3 (remote_world ''sk-test'' None fails_on_q1))
       = Inr [(''response'', [''Request timed out'', ''fine''])]
   \<and> len [(''response'', [''Request timed out'', ''fine''])] = len frame3
   \<and> length (requests (emitted (remote_world ''sk-test'' None fails_on_q1)
        (snd (forward configured frame3 (remote_world ''sk-test'' None fails_on_q1)))))
       = len frame3"
proof -
  let ?w = "remote_world ''sk-test'' None fails_on_q1"
  have r: "rectangular frame3" by (simp add: rectangular_def frame3_def)
  have f: "forward configured frame3 ?w =
      (Inr [(''response'', [''Request timed out'', ''fine''])], snd (forward configured frame3 ?w))"
    by (simp add: run_frame3)
  have f': "fst (forward configured frame3 ?w) =
      Inr [(''response'', [''Request timed out'', ''fine''])]"
    by (simp add: run_frame3)
  from forward_output_matches_rows [OF r f] r f' show ?thesis by auto
qed

text \<open>
  C6. In a batch with at least three columns the first message of every request is the
  system message whose content is the cell at row 0 of column 2, not the default; in a
  batch with fewer than three columns it is the system message with the content
  "You are a helpful assistant that accomplishes user tasks.". Request \<open>i\<close> is the
  request of row \<open>i\<close> (see C5 and C8).
\<close>

theorem system_message_of_every_request:
  assumes "forward self text_df w = (r, w')" and "i < length (requests (emitted w w'))"
  shows "(length text_df \<ge> 3 \<longrightarrow>
            snd (text_df ! 2) \<noteq> [] \<and>
            messages (requests (emitted w w') ! i) ! 0
              = \<lparr>role = ''system'', content = snd (text_df ! 2) ! 0\<rparr>)
       \<and> (length text_df < 3 \<longrightarrow>
            messages (requests (emitted w w') ! i) ! 0
              = \<lparr>role = ''system'',
                 content = ''You are a helpful assistant that accomplishes user tasks.''\<rparr>)"
proof -
  from forward_requests [OF assms]
  have ne: "length text_df > 2 \<longrightarrow> snd (text_df ! 2) \<noteq> []"
    and "build_params self (if length text_df > 2 then Some (snd (text_df ! 2) ! 0) else None)
           (snd (text_df ! 0) ! i) (snd (text_df ! (if length text_df > 1 then 1 else 0)) ! i)
           = Inr (requests (emitted w w') ! i)"
    by simp_all
  from build_params_Inr [OF this(2)] ne show ?thesis
    by (auto simp: default_system_prompt_def)
qed

theorem system_message_of_every_request_witness:
  "3 \<le> length frame3
   \<and> messages (requests (emitted (remote_world ''sk-test'' None fails_on_q1)
        (snd (forward configured frame3 (remote_world ''sk-test'' None fails_on_q1)))) ! 1) ! 0
       = \<lparr>role = ''system'', content = ''Be terse.''\<rparr>
   \<and> length frame1 < 3
   \<and> messages (requests (emitted (remote_world ''sk-test'' None fails_twice)
        (snd (forward configured frame1 (remote_world ''sk-test'' None fails_twice)))) ! 0) ! 0
       = \<lparr>role = ''system'',
          content = ''You are a helpful assistant that accomplishes user tasks.''\<rparr>"
proof -
  let ?w3 = "remote_world ''sk-test'' None fails_on_q1"
  let ?w1 = "remote_world ''sk-test'' None fails_twice"
  have f3: "forward configured frame3 ?w3 =
      (fst (forward configured frame3 ?w3), snd (forward configured frame3 ?w3))" by simp
  have i3: "1 < length (requests (emitted ?w3 (snd (forward configured frame3 ?w3))))"
    by (simp add: requests_run_frame3)
  have f1: "forward configured frame1 ?w1 =
      (fst (forward configured frame1 ?w1), snd (forward configured frame1 ?w1))" by simp
  have i1: "0 < length (requests (emitted ?w1 (snd (forward configured frame1 ?w1))))"
    by (simp add: requests_run_frame1)
  have l3: "3 \<le> length frame3" "snd (frame3 ! 2) ! 0 = ''Be terse.''" by (simp_all add: frame3_def)
  have l1: "length frame1 < 3" by (simp add: frame1_def)
  from system_message_of_every_request [OF f3 i3] system_message_of_every_request [OF f1 i1]
    l3 l1
  show ?thesis by simp
qed

text \<open>
  C7. In the request of row \<open>i\<close> the task message embeds the cell of column 0; in a
  batch with exactly one column the context message embeds that same cell (the content is
  the query), and in a batch with two or more columns it embeds the cell of column 1.
\<close>

theorem context_message_of_every_request:
  assumes "forward self text_df w = (r, w')" and "i < length (requests (emitted w w'))"
  shows "i < length (snd (text_df ! 0))
       \<and> messages (requests (emitted w w') ! i) ! 2
           = \<lparr>role = ''user'',
              content = ''Complete the following task: '' @ snd (text_df ! 0) ! i\<rparr>
       \<and> (length text_df = 1 \<longrightarrow>
            messages (requests (emitted w w') ! i) ! 1
              = \<lparr>role = ''user'',
                 content = ''Here is some context : '' @ snd (text_df ! 0) ! i\<rparr>)
       \<and> (length text_df \<ge> 2 \<longrightarrow>
            i < length (snd (text_df ! 1)) \<and>
            messages (requests (emitted w w') ! i) ! 1
              = \<lparr>role = ''user'',
                 content = ''Here is some context : '' @ snd (text_df ! 1) ! i\<rparr>)"
proof -
  from forward_requests [OF assms]
  have in_range: "i < length (snd (text_df ! 0))"
       "i < length (snd (text_df ! (if length text_df > 1 then 1 else 0)))"
    and "build_params self (if length text_df > 2 then Some (snd (text_df ! 2) ! 0) else None)
           (snd (text_df ! 0) ! i) (snd (text_df ! (if length text_df > 1 then 1 else 0)) ! i)
           = Inr (requests (emitted w w') ! i)"
    by simp_all
  from build_params_Inr [OF this(3)] in_range show ?thesis
    by (auto split: if_splits)
qed

theorem context_message_of_every_request_witness:
  "length frame1 = 1
   \<and> messages (requests (emitted (remote_world ''sk-test'' None fails_twice)
        (snd (forward configured frame1 (remote_world ''sk-test'' None fails_twice)))) ! 0) ! 1
       = \<lparr>role = ''user'', content = ''Here is some context : summarize''\<rparr>
   \<and> messages (requests (emitted (remote_world ''sk-test'' None fails_twice)
        (snd (forward configured frame1 (remote_world ''sk-test'' None fails_twice)))) ! 0) ! 2
       = \<lparr>role = ''user'', content = ''Complete the following task: summarize''\<rparr>
   \<and> 2 \<le> length frame3
   \<and> messages (requests (emitted (remote_world ''sk-test'' None fails_on_q1)
        (snd (forward configured frame3 (remote_world ''sk-test'' None fails_on_q1)))) ! 1) ! 1
       = \<lparr>role = ''user'', content = ''Here is some context : c2''\<rparr>"
proof -
  let ?w3 = "remote_world ''sk-test'' None fails_on_q1"
  let ?w1 = "remote_world ''sk-test'' None fails_twice"
  have f3: "forward configured frame3 ?w3 =
      (fst (forward configured frame3 ?w3), snd (forward configured frame3 ?w3))" by simp
  have i3: "1 < length (requests (emitted ?w3 (snd (forward configured frame3 ?w3))))"
    by (simp add: requests_run_frame3)
  have f1: "forward configured frame1 ?w1 =
      (fst (forward configured frame1 ?w1), snd (forward configured frame1 ?w1))" by simp
  have i1: "0 < length (requests (emitted ?w1 (snd (forward configured frame1 ?w1))))"
    by (simp add: requests_run_frame1)
  have l3: "2 \<le> length frame3" "snd (frame3 ! 1) ! 1 = ''c2''" by (simp_all add: frame3_def)
  have l1: "length frame1 = 1" "snd (frame1 ! 0) ! 0 = ''summarize''" by (simp_all add: frame1_def)
  from context_message_of_every_request [OF f3 i3] context_message_of_every_request [OF f1 i1]
    l3 l1
  show ?thesis by simp
qed

text \<open>
  C8. The request of every row carries the configured model and temperature and exactly
  three messages in this order: the system message, the user message
  "Here is some context : " followed by the content of the row, and the user message
  "Complete the following task: " followed by the query of the row.
\<close>

theorem request_of_every_row:
  assumes "forward self text_df w = (r, w')" and "i < length (requests (emitted w w'))"
  shows "\<exists>m t. self_model self = Some m \<and> self_temperature self = Some t \<and>
           requests (emitted w w') ! i =
             \<lparr>model = m, temperature = t,
              messages =
                [\<lparr>role = ''system'',
                  content = (if length text_df > 2 then snd (text_df ! 2) ! 0
                             else default_system_prompt)\<rparr>,
                 \<lparr>role = ''user'',
                  content = ''Here is some context : ''
                    @ snd (text_df ! (if length text_df > 1 then 1 else 0)) ! i\<rparr>,
                 \<lparr>role = ''user'',
                  content = ''Complete the following task: '' @ snd (text_df ! 0) ! i\<rparr>]\<rparr>"
proof -
  from forward_requests [OF assms]
  have "build_params self (if length text_df > 2 then Some (snd (text_df ! 2) ! 0) else None)
           (snd (text_df ! 0) ! i) (snd (text_df ! (if length text_df > 1 then 1 else 0)) ! i)
           = Inr (requests (emitted w w') ! i)"
    by simp
  from build_params_Inr [OF this] show ?thesis
    by (auto split: if_splits)
qed

theorem request_of_every_row_witness:
  "requests (emitted (remote_world ''sk-test'' None fails_on_q1)
        (snd (forward configured frame3 (remote_world ''sk-test'' None fails_on_q1)))) ! 0
     = \<lparr>model = ''gpt-3.5-turbo'', temperature = 0, messages =
         [\<lparr>role = ''system'', content = ''Be terse.''\<rparr>,
          \<lparr>role = ''user'', content = ''Here is some context : c1''\<rparr>,
          \<lparr>role = ''user'', content = ''Complete the following task: q1''\<rparr>]\<rparr>"
proof -
  let ?w3 = "remote_world ''sk-test'' None fails_on_q1"
  have f3: "forward configured frame3 ?w3 =
      (fst (forward configured frame3 ?w3), snd (forward configured frame3 ?w3))" by simp
  have i3: "0 < length (requests (emitted ?w3 (snd (forward configured frame3 ?w3))))"
    by (simp add: requests_run_frame3)
  have cells: "length frame3 = 3" "snd (frame3 ! 2) ! 0 = ''Be terse.''"
    "snd (frame3 ! 1) ! 0 = ''c1''" "snd (frame3 ! 0) ! 0 = ''q1''"
    by (simp_all add: frame3_def)
  from request_of_every_row [OF f3 i3] cells show ?thesis
    by (simp add: configured_def)
qed

subsection \<open>Errors of the remote call\<close>

text \<open>
  C2. Take a configured instance, a process where the client imports and a credential is
  set, and a frame that \<open>forward\<close> can read (at least one column; at least one row when
  there is a prompt column). If every remote call of the batch either answers or raises an
  \<open>Exception\<close>, then \<open>forward\<close> raises nothing: it returns a frame with one row per input
  row, one request was sent for every row, and each row whose remote call raised \<open>e\<close>
  holds the text \<open>str(e)\<close>; the rows after it are processed all the same. (Each row
  has one attempt, so a call that raises on every attempt is a call that raises.)
\<close>

theorem forward_turns_errors_into_rows:
  assumes "try_to_import_openai w = None" and "api_key (resolve_api_key w) \<noteq> []"
    and "rectangular text_df" and "text_df \<noteq> []"
    and "length text_df > 2 \<longrightarrow> len text_df \<noteq> 0"
    and "self_model self = Some m" and "self_temperature self = Some t"
    and "\<forall>i<len text_df. \<forall>p e. create w (calls w + i) p = Inl e \<longrightarrow> is_Exception e"
  shows "\<exists>results w'. forward self text_df w = (Inr [(''response'', results)], w')
           \<and> length results = len text_df
           \<and> length (requests (emitted w w')) = len text_df
           \<and> (\<forall>i<len text_df. \<forall>e.
                 create w (calls w + i) (requests (emitted w w') ! i) = Inl e \<longrightarrow>
                 results ! i = str e)"
proof -
  let ?queries = "snd (text_df ! 0)"
  let ?content = "snd (text_df ! (if length text_df > 1 then 1 else 0))"
  let ?prompt = "if length text_df > 2 then Some (snd (text_df ! 2) ! 0) else None"
  from assms(4) have pos: "0 < length text_df" by simp
  have lq: "length ?queries = len text_df"
    using rectangular_column [OF assms(3) pos] .
  have lc: "length ?content = len text_df"
    using rectangular_column [OF assms(3)] pos by simp
  have "length text_df > 2 \<longrightarrow> snd (text_df ! 2) \<noteq> []"
    using rectangular_column [OF assms(3), of 2] assms(5) by auto
  with assms(4) have sel: "select_columns text_df = Inr (?queries, ?content, ?prompt)"
    by (rule select_columns_ok)
  have "\<forall>i<length (zip ?queries ?content). \<forall>p e.
          build_params self ?prompt (fst (zip ?queries ?content ! i))
            (snd (zip ?queries ?content ! i)) = Inr p \<longrightarrow>
          create (resolve_api_key w) (calls (resolve_api_key w) + i) p = Inl e \<longrightarrow>
          is_Exception e"
    using assms(8) lq lc by (simp add: resolve_api_key_unchanged)
  from forward_loop_completes [OF assms(6,7) this, of "[]"] obtain res w' where
    loop: "forward_loop self ?prompt (zip ?queries ?content) [] (resolve_api_key w) = (Inr res, w')"
    by blast
  with assms(1,2) sel have fw: "forward self text_df w = (Inr [(''response'', res)], w')"
    by (simp add: forward_def)
  from forward_Inr [OF fw] lq lc
  have lres: "length res = len text_df"
    and lreq: "length (requests (emitted w w')) = len text_df"
    and ans: "\<forall>i<len text_df.
                answer_of (create w (calls w + i) (requests (emitted w w') ! i)) = Inr (res ! i)"
    by auto
  have "\<forall>i<len text_df. \<forall>e.
          create w (calls w + i) (requests (emitted w w') ! i) = Inl e \<longrightarrow> res ! i = str e"
  proof (intro allI impI)
    fix i e
    assume i: "i < len text_df"
      and e: "create w (calls w + i) (requests (emitted w w') ! i) = Inl e"
    from assms(8) i e have "is_Exception e" by blast
    with ans i e show "res ! i = str e" by (auto simp: answer_of_Inl)
  qed
  with fw lres lreq show ?thesis by blast
qed

theorem forward_turns_errors_into_rows_witness:
  "(\<forall>n. fails_on_q1 n
        \<lparr>model = ''gpt-3.5-turbo'', temperature = 0, messages =
           [\<lparr>role = ''system'', content = ''Be terse.''\<rparr>,
            \<lparr>role = ''user'', content = ''Here is some context : c1''\<rparr>,
            \<lparr>role = ''user'', content = ''Complete the following task: q1''\<rparr>]\<rparr>
      = Inl (ClientError ''Request timed out''))
   \<and> (\<exists>results w'.
        forward configured frame3 (remote_world ''sk-test'' None fails_on_q1)
          = (Inr [(''response'', results)], w')
        \<and> length results = 2 \<and> results ! 0 = ''Request timed out'')"
proof -
  let ?w = "remote_world ''sk-test'' None fails_on_q1"
  let ?q1 = "\<lparr>model = ''gpt-3.5-turbo'', temperature = 0, messages =
           [\<lparr>role = ''system'', content = ''Be terse.''\<rparr>,
            \<lparr>role = ''user'', content = ''Here is some context : c1''\<rparr>,
            \<lparr>role = ''user'', content = ''Complete the following task: q1''\<rparr>]\<rparr>"
  have h1: "try_to_import_openai ?w = None" by (simp add: remote_world_def)
  have h2: "api_key (resolve_api_key ?w) \<noteq> []"
    by (simp add: resolve_api_key_eq remote_world_def)
  have h3: "rectangular frame3" by (simp add: rectangular_def frame3_def)
  have h4: "frame3 \<noteq> []" by (simp add: frame3_def)
  have l: "len frame3 = 2" by (simp add: len_def frame3_def)
  then have h5: "length frame3 > 2 \<longrightarrow> len frame3 \<noteq> 0" by simp
  have h6: "self_model configured = Some ''gpt-3.5-turbo''" by (simp add: configured_def)
  have h7: "self_temperature configured = Some 0" by (simp add: configured_def)
  have h8: "\<forall>i<len frame3. \<forall>p e. create ?w (calls ?w + i) p = Inl e \<longrightarrow> is_Exception e"
    by (auto simp: remote_world_def fails_on_q1_def reply_def split: if_splits)
  have raises: "\<forall>n. fails_on_q1 n ?q1 = Inl (ClientError ''Request timed out'')"
    by (simp add: fails_on_q1_def)
  from forward_turns_errors_into_rows [OF h1 h2 h3 h4 h5 h6 h7 h8]
  obtain results w' where
    fw: "forward configured frame3 ?w = (Inr [(''response'', results)], w')"
    and len: "length results = len frame3"
    and rows: "\<forall>i<len frame3. \<forall>e.
                 create ?w (calls ?w + i) (requests (emitted ?w w') ! i) = Inl e \<longrightarrow>
                 results ! i = str e"
    by blast
  from fw have "w' = snd (forward configured frame3 ?w)" by simp
  then have "requests (emitted ?w w') ! 0 = ?q1" by (simp add: requests_run_frame3)
  moreover have "create ?w (calls ?w + 0) ?q1 = Inl (ClientError ''Request timed out'')"
    using raises by (simp add: remote_world_def)
  ultimately have "results ! 0 = str (ClientError ''Request timed out'')"
    using rows l by (metis zero_less_numeral)
  with fw len l raises show ?thesis by auto
qed

text \<open>
  C1. The claim: a row whose remote call fails on the first two attempts and succeeds on
  the third gets the success value, after exactly three attempts with a delay of 20 between
  them, and no row gets more than six attempts. The code at such an input: the remote
  endpoint \<open>fails_twice\<close> raises on the calls 0 and 1 and would answer "A summary." on
  call 2, but \<open>forward\<close> makes one call for the row, never sleeps, and returns the text
  of the first error as the row. The \<open>except Exception\<close> inside the decorated function
  leaves the decorator \<open>retry(tries=6, delay=20)\<close> nothing to retry on.
\<close>

theorem retry_makes_a_single_attempt:
  "(\<forall>kwargs. fails_twice 0 kwargs = Inl (ClientError ''Rate limit reached'')
       \<and> fails_twice 1 kwargs = Inl (ClientError ''Rate limit reached'')
       \<and> answer_of (fails_twice 2 kwargs) = Inr ''A summary.'')
   \<and> fst (forward configured frame1 (remote_world ''sk-test'' None fails_twice))
       = Inr [(''response'', [''Rate limit reached''])]
   \<and> length (requests (emitted (remote_world ''sk-test'' None fails_twice)
        (snd (forward configured frame1 (remote_world ''sk-test'' None fails_twice))))) = 1
   \<and> sleeps (emitted (remote_world ''sk-test'' None fails_twice)
        (snd (forward configured frame1 (remote_world ''sk-test'' None fails_twice)))) = []"
proof -
  let ?w = "remote_world ''sk-test'' None fails_twice"
  have "forward configured frame1 ?w =
      (fst (forward configured frame1 ?w), snd (forward configured frame1 ?w))" by simp
  then have "sleeps (emitted ?w (snd (forward configured frame1 ?w))) = []"
    by (rule forward_never_sleeps)
  moreover have "fst (forward configured frame1 ?w) = Inr [(''response'', [''Rate limit reached''])]"
    by (simp add: run_frame1)
  ultimately show ?thesis
    by (simp add: fails_twice_def requests_run_frame1 reply_def answer_of_def
        first_choice_content_def)
qed

text \<open>
  C10. The claim: on every frame without rows, with a credential set, \<open>forward\<close> makes no
  remote call and returns the \<open>response\<close> frame without rows. The code at a frame with
  three columns and no row: the prompt is read from row 0 of column 2 before the loop, and
  \<open>forward\<close> raises the index error (no remote call is made). With one or two columns
  the claim holds, see \<open>forward_zero_rows_without_prompt\<close>.
\<close>

theorem forward_raises_on_empty_frame_with_prompt:
  "len empty_frame3 = 0 \<and> length empty_frame3 = 3
   \<and> api_key (resolve_api_key (remote_world ''sk-test'' None fails_twice)) = ''sk-test''
   \<and> fst (forward configured empty_frame3 (remote_world ''sk-test'' None fails_twice))
       = Inl (IndexError ''single positional indexer is out-of-bounds'')
   \<and> requests (emitted (remote_world ''sk-test'' None fails_twice)
        (snd (forward configured empty_frame3 (remote_world ''sk-test'' None fails_twice)))) = []"
  by (simp add: run_empty)
     (simp add: len_def empty_frame3_def resolve_api_key_eq emitted_def remote_world_def)

end
